theory Spec2Isabelle
  imports Main "HOL-Library.Sublist"
begin

section \<open>Python values, exceptions and the observable effects of a script run\<close>

text \<open>
  Both programs are Streamlit scripts. A Python expression either yields a value or raises.
  What is raised is an instance of \<open>Exception\<close>, of which the sources only ever look at
  \<open>str(e)\<close>, so it is given by its message; or it is a \<open>BaseException\<close> that is not an
  \<open>Exception\<close> (\<open>KeyboardInterrupt\<close>, \<open>SystemExit\<close>), given by the name of its class.
  \<open>Inl x\<close> is "raised \<open>x\<close>", \<open>Inr v\<close> is "returned \<open>v\<close>".
  Strings are byte lists (UTF-8); a character outside ASCII is spelled by its bytes.
\<close>

datatype raised = Exception string | BaseException string

type_synonym 'a py = "raised + 'a"

definition bind_py :: "'a py \<Rightarrow> ('a \<Rightarrow> 'b py) \<Rightarrow> 'b py" where
  "bind_py m f = (case m of Inl e \<Rightarrow> Inl e | Inr v \<Rightarrow> f v)"

text \<open>
  \<open>try: body except Exception as e: handler(str(e))\<close>: the clause catches the instances of
  \<open>Exception\<close>; any other raise leaves the statement as it is.
\<close>

definition try_except :: "'a py \<Rightarrow> (string \<Rightarrow> 'a py) \<Rightarrow> 'a py" where
  "try_except body handler =
     (case body of
        Inl (Exception e) \<Rightarrow> handler e
      | Inl (BaseException b) \<Rightarrow> Inl (BaseException b)
      | Inr v \<Rightarrow> Inr v)"

text \<open>A chat message as sent to a model API: \<open>{'role': ..., 'content': ...}\<close>.\<close>

record chat_msg =
  msg_role :: string
  msg_content :: string

text \<open>A stored conversation turn. The user turn is appended without a \<open>"citations"\<close> key.\<close>

record turn =
  role :: string
  content :: string
  citations :: "string list option"

record session_state =
  messages :: "turn list"

text \<open>The keyword arguments of \<open>tavily.search\<close> and of \<open>TavilyClient\<close>.\<close>

record tavily_request =
  api_key :: string
  query :: string
  search_depth :: string
  max_results :: nat
  include_domains :: "string list"

text \<open>A search result is a dict of strings; the response may lack the key \<open>'results'\<close>.\<close>

type_synonym search_result = "(string \<times> string) list"

record tavily_response =
  results :: "search_result list option"

record ollama_request =
  ollama_model :: string
  ollama_messages :: "chat_msg list"
  stream :: bool

record payload =
  payload_model :: string
  payload_messages :: "chat_msg list"
  return_citations :: bool

record pplx_request =
  url :: string
  authorization :: string
  content_type :: string
  json_body :: payload

text \<open>What a script run does to the outside: calls of the client libraries and UI output.\<close>

datatype effect =
    TavilySearch tavily_request
  | OllamaChat ollama_request
  | HttpPost pplx_request
  | StError string
  | ChatMessage string
  | Markdown string
  | PlaceholderMarkdown string
  | Status string
  | StatusWrite string
  | StatusUpdate string string
  | Spinner string
  | Expander string

text \<open>
  How the handling of the chat input ends: no input was submitted, \<open>st.stop()\<close> was called,
  the block ran to its end, or an exception escaped the script.
\<close>

datatype outcome = NoInput | Stopped | Completed | Crashed raised

fun is_network_call :: "effect \<Rightarrow> bool" where
  "is_network_call (TavilySearch _) = True"
| "is_network_call (OllamaChat _) = True"
| "is_network_call (HttpPost _) = True"
| "is_network_call _ = False"

fun is_error_shown :: "effect \<Rightarrow> bool" where
  "is_error_shown (StError _) = True"
| "is_error_shown _ = False"

fun is_ollama_call :: "effect \<Rightarrow> bool" where
  "is_ollama_call (OllamaChat _) = True"
| "is_ollama_call _ = False"

section \<open>local\_web\_search.py\<close>

text \<open>\<open>d[k]\<close> on a dict: \<open>KeyError(k)\<close>, whose \<open>str\<close> is the quoted key.\<close>

definition getitem :: "(string \<times> string) list \<Rightarrow> string \<Rightarrow> string py" where
  "getitem d k =
     (case map_of d k of
        None \<Rightarrow> Inl (Exception ([CHR 0x27] @ k @ [CHR 0x27]))
      | Some v \<Rightarrow> Inr v)"

text \<open>The loop of \<open>search_web\<close> over the results, with its two accumulators.\<close>

fun format_results :: "search_result list \<Rightarrow> string \<Rightarrow> string list \<Rightarrow> (string \<times> string list) py" where
  "format_results [] context_text cits = Inr (context_text, cits)"
| "format_results (result # rest) context_text cits =
     bind_py (getitem result ''title'') (\<lambda>title.
     bind_py (getitem result ''url'') (\<lambda>u.
     bind_py (getitem result ''content'') (\<lambda>c.
       format_results rest
         (context_text @ ''\<newline>---\<newline>Title: '' @ title @ ''\<newline>URL: '' @ u
            @ ''\<newline>Content: '' @ c @ ''\<newline>'')
         (cits @ [''['' @ title @ '']('' @ u @ '')'']))))"

definition search_request :: "string \<Rightarrow> string \<Rightarrow> tavily_request" where
  "search_request q key =
     \<lparr>api_key = key, query = q, search_depth = ''advanced'', max_results = 5,
      include_domains = []\<rparr>"

text \<open>
  \<open>search_web(query, key)\<close>. The first component is what the call does to the outside, the
  second what it returns: the pair \<open>(context_text, citations)\<close>, where \<open>None\<close> for the
  context is Python's \<open>None\<close>.
\<close>

definition search_web ::
  "(tavily_request \<Rightarrow> tavily_response py) \<Rightarrow> string \<Rightarrow> string
     \<Rightarrow> effect list \<times> (string option \<times> string list) py" where
  "search_web tavily_search q key =
     ([TavilySearch (search_request q key)],
      try_except
        (bind_py (tavily_search (search_request q key)) (\<lambda>response.
         bind_py (format_results (case results response of None \<Rightarrow> [] | Some rs \<Rightarrow> rs) [] [])
           (\<lambda>(context_text, cits). Inr (Some context_text, cits))))
        (\<lambda>e. Inr (None, [''Search Error: '' @ e])))"

definition system_prompt :: string where
  "system_prompt =
     ''\<newline>'' @
     ''    You are a Senior Financial Analyst. \<newline>'' @
     ''    You have been provided with raw search results from the '' @
     ''web (Context).\<newline>'' @
     ''    \<newline>'' @
     ''    Your Job:\<newline>'' @
     ''    1. Synthesize the search results to answer the user'' @
     [CHR 0x27] @
     ''s question.\<newline>'' @
     ''    2. Focus on hard numbers: Revenue, Margins, Growth Rates, '' @
     ''Guidance.\<newline>'' @
     ''    3. Be skeptical: If sources conflict, note the discrepancy.\<newline>'' @
     ''    4. Format: Use Markdown tables for data. Keep text concise.\<newline>'' @
     ''    \<newline>'' @
     ''    DISCLAIMER: Do not make up facts. If the answer is not in '' @
     ''the Context, state that.\<newline>'' @
     ''    ''"

text \<open>The f-string \<open>final_prompt\<close>; a \<open>None\<close> context would be formatted as \<open>None\<close>.\<close>

definition final_prompt :: "string \<Rightarrow> string option \<Rightarrow> string" where
  "final_prompt q search_context =
     ''\<newline>'' @
     ''    ### CONTEXT FROM WEB SEARCH:\<newline>'' @
     ''    '' @ (case search_context of None \<Rightarrow> ''None'' | Some c \<Rightarrow> c) @
     ''\<newline>'' @
     ''    \<newline>'' @
     ''    ### USER QUESTION:\<newline>'' @
     ''    '' @ q @
     ''\<newline>'' @
     ''    \<newline>'' @
     ''    ### YOUR ANALYSIS:\<newline>'' @
     ''    ''"

definition analyst_request :: "string \<Rightarrow> string option \<Rightarrow> string \<Rightarrow> ollama_request" where
  "analyst_request q search_context model =
     \<lparr>ollama_model = model,
      ollama_messages =
        [\<lparr>msg_role = ''system'', msg_content = system_prompt\<rparr>,
         \<lparr>msg_role = ''user'', msg_content = final_prompt q search_context\<rparr>],
      stream = True\<rparr>"

text \<open>
  \<open>run_local_analyst\<close> returns the stream of \<open>ollama.chat\<close>: a finite list of items, each the
  text \<open>chunk['message']['content']\<close> of a chunk, or an exception raised while iterating.
\<close>

definition run_local_analyst ::
  "(ollama_request \<Rightarrow> string py list py) \<Rightarrow> string \<Rightarrow> string option \<Rightarrow> string
     \<Rightarrow> effect list \<times> string py list py" where
  "run_local_analyst ollama_chat q search_context model =
     ([OllamaChat (analyst_request q search_context model)],
      ollama_chat (analyst_request q search_context model))"

definition cursor :: string where
  "cursor = [CHR 0xE2, CHR 0x96, CHR 0x8C]"

text \<open>The \<open>for chunk in stream\<close> loop: accumulates \<open>full_response\<close>, re-rendering at each chunk.\<close>

fun drain :: "string py list \<Rightarrow> string \<Rightarrow> effect list \<Rightarrow> effect list \<times> string py" where
  "drain [] full_response evs = (evs, Inr full_response)"
| "drain (Inl e # rest) full_response evs = (evs, Inl e)"
| "drain (Inr c # rest) full_response evs =
     drain rest (full_response @ c)
       (evs @ [PlaceholderMarkdown ((full_response @ c) @ cursor)])"

definition append_turn :: "turn \<Rightarrow> session_state \<Rightarrow> session_state" where
  "append_turn t s = s\<lparr>messages := messages s @ [t]\<rparr>"

definition show_sources :: "string \<Rightarrow> string list \<Rightarrow> effect list" where
  "show_sources label cits =
     (if cits = [] then [] else Expander label # map (\<lambda>c. Markdown (''- '' @ c)) cits)"

definition label_working :: string where
  "label_working =
     [CHR 0xF0, CHR 0x9F, CHR 0x95, CHR 0xB5, CHR 0xEF, CHR 0xB8, CHR 0x8F] @
     '' Agent Working...''"

definition label_failed :: string where
  "label_failed = [CHR 0xE2, CHR 0x9D, CHR 0x8C] @ '' Search Failed''"

definition label_complete :: string where
  "label_complete = [CHR 0xE2, CHR 0x9C, CHR 0x85] @ '' Analysis Complete''"

definition label_sources_used :: string where
  "label_sources_used = [CHR 0xF0, CHR 0x9F, CHR 0x93, CHR 0x9A] @ '' Sources Used''"

text \<open>
  The block \<open>if prompt := st.chat_input(...)\<close> of the local script, steps B and C: what
  follows a search that gave a non-empty context.
\<close>

definition local_generate ::
  "(ollama_request \<Rightarrow> string py list py) \<Rightarrow> string \<Rightarrow> string \<Rightarrow> string option
     \<Rightarrow> string list \<Rightarrow> session_state \<Rightarrow> outcome \<times> effect list \<times> session_state" where
  "local_generate ollama_chat selected_model prompt context cits s =
     (case run_local_analyst ollama_chat prompt context selected_model of
        (ev_call, Inl e) \<Rightarrow> (Crashed e, ev_call, s)
      | (ev_call, Inr items) \<Rightarrow>
          (case drain items [] [] of
             (ev_stream, Inl e) \<Rightarrow> (Crashed e, ev_call @ ev_stream, s)
           | (ev_stream, Inr full_response) \<Rightarrow>
               (Completed,
                ev_call @ ev_stream
                  @ [PlaceholderMarkdown full_response, StatusUpdate label_complete ''complete'']
                  @ show_sources label_sources_used cits,
                append_turn
                  \<lparr>role = ''assistant'', content = full_response, citations = Some cits\<rparr> s)))"

text \<open>
  The whole block. \<open>prompt\<close> is the submitted text (the block is skipped when there is
  none), \<open>tavily_key\<close> and \<open>selected_model\<close> are the sidebar's settings.
\<close>

definition local_turn ::
  "(tavily_request \<Rightarrow> tavily_response py) \<Rightarrow> (ollama_request \<Rightarrow> string py list py)
     \<Rightarrow> string \<Rightarrow> string \<Rightarrow> string \<Rightarrow> session_state
     \<Rightarrow> outcome \<times> effect list \<times> session_state" where
  "local_turn tavily_search ollama_chat tavily_key selected_model prompt s =
     (if prompt = [] then (NoInput, [], s)
      else if tavily_key = [] then
        (Stopped, [StError ''Please enter your Tavily API Key in the sidebar.''], s)
      else
        (let s1 = append_turn \<lparr>role = ''user'', content = prompt, citations = None\<rparr> s;
             ev1 = [ChatMessage ''user'', Markdown prompt, ChatMessage ''assistant'',
                    Status label_working, StatusWrite ''Searching the web (Tavily)...'']
         in case search_web tavily_search prompt tavily_key of
              (ev2, Inl e) \<Rightarrow> (Crashed e, ev1 @ ev2, s1)
            | (ev2, Inr (context, cits)) \<Rightarrow>
                if context = None \<or> context = Some [] then
                  (Stopped,
                   ev1 @ ev2 @ [StatusUpdate label_failed ''error'',
                                StError ''Could not retrieve search results.''],
                   s1)
                else
                  (case local_generate ollama_chat selected_model prompt context cits s1 of
                     (out, ev3, s2) \<Rightarrow>
                       (out,
                        ev1 @ ev2
                          @ [StatusWrite ''Context retrieved. Analyzing with local Qwen model...'']
                          @ ev3,
                        s2))))"

section \<open>web\_search\_agent.py\<close>

definition API_URL :: string where
  "API_URL = ''https://api.perplexity.ai/chat/completions''"

text \<open>The options of the sidebar's model \<open>selectbox\<close>.\<close>

datatype pplx_model = Sonar | SonarReasoning

fun model_name :: "pplx_model \<Rightarrow> string" where
  "model_name Sonar = ''sonar''"
| "model_name SonarReasoning = ''sonar-reasoning''"

text \<open>
  The parsed response body, as far as the script reads it: a dict with the keys \<open>error\<close>,
  \<open>choices\<close> and \<open>citations\<close>, each of which may be missing, and below \<open>choices\<close> the keys
  \<open>message\<close> and \<open>content\<close>. \<open>None\<close> is "key absent".
\<close>

record message_obj =
  message_content :: "string option"

record choice =
  choice_message :: "message_obj option"

record result =
  res_error :: "string option"
  res_choices :: "choice list option"
  res_citations :: "string list option"

text \<open>
  The object \<open>requests.post\<close> returns, by the two methods the script calls on it:
  \<open>raise_for_status()\<close> returns nothing or raises, \<open>json()\<close> returns the parsed body or raises.
\<close>

record response =
  raise_for_status :: "unit py"
  json :: "result py"

definition error_result :: "string \<Rightarrow> result" where
  "error_result e = \<lparr>res_error = Some e, res_choices = None, res_citations = None\<rparr>"

definition perplexity_request :: "chat_msg list \<Rightarrow> string \<Rightarrow> string \<Rightarrow> pplx_request" where
  "perplexity_request msgs key model =
     \<lparr>url = API_URL,
      authorization = ''Bearer '' @ key,
      content_type = ''application/json'',
      json_body = \<lparr>payload_model = model, payload_messages = msgs, return_citations = True\<rparr>\<rparr>"

definition query_perplexity ::
  "(pplx_request \<Rightarrow> response py) \<Rightarrow> chat_msg list \<Rightarrow> string \<Rightarrow> string
     \<Rightarrow> effect list \<times> result py" where
  "query_perplexity post msgs key model =
     ([HttpPost (perplexity_request msgs key model)],
      try_except
        (bind_py (post (perplexity_request msgs key model)) (\<lambda>resp.
         bind_py (raise_for_status resp) (\<lambda>_.
         json resp)))
        (\<lambda>e. Inr (error_result e)))"

definition system_instruction :: string where
  "system_instruction =
     ''\<newline>'' @
     ''            You are a Senior Equity Research Associate assisting '' @
     ''a Portfolio Manager. \<newline>'' @
     ''            Your goal is to provide high-precision fundamental '' @
     ''analysis based on real-time web search.\<newline>'' @
     ''\<newline>'' @
     ''            ### EXECUTION GUIDELINES:\<newline>'' @
     ''            1. **Sources**: STRICTLY prioritize official Investor '' @
     ''Relations (IR), SEC/Regulatory filings (10-K/10-Q), and Tier-1 '' @
     ''financial news (Bloomberg, Reuters, FT, WSJ). Ignore generic '' @
     ''blogs.\<newline>'' @
     ''            2. **Format**: Minimize text. Use Markdown tables '' @
     ''for financial data. \<newline>'' @
     ''            3. **Tone**: Objective, professional, and direct. '' @
     ''No conversational filler (e.g., '' @
     [CHR 0x22] @
     ''Here is what I found'' @
     [CHR 0x22] @
     '').\<newline>'' @
     ''\<newline>'' @
     ''            ### OUTPUT STRUCTURE:\<newline>'' @
     ''            - **Executive Summary**: High-level thesis/status '' @
     ''(max 50 words).\<newline>'' @
     ''            - **Key Fundamentals**: Markdown table (Required '' @
     ''for: Revenue, EBITDA, Margins, EPS, YoY growth).\<newline>'' @
     ''            - **Corporate Developments**: Strategic updates, '' @
     ''M&A, or leadership changes.\<newline>'' @
     ''            - **Risks/Catalysts**: Bullet points only.\<newline>'' @
     ''            ''"

text \<open>
  \<open>api_messages\<close>: the comprehension over the stored turns, then the system prompt
  inserted at index 0.
\<close>

definition api_messages :: "turn list \<Rightarrow> chat_msg list" where
  "api_messages ms =
     \<lparr>msg_role = ''system'', msg_content = system_instruction\<rparr>
       # map (\<lambda>m. \<lparr>msg_role = role m, msg_content = content m\<rparr>) ms"

text \<open>Decimal digits of a number, for \<open>f"[{i}] {citation}"\<close>.\<close>

fun str_nat :: "nat \<Rightarrow> string" where
  "str_nat n =
     (if n < 10 then [char_of (48 + n)] else str_nat (n div 10) @ [char_of (48 + n mod 10)])"

declare str_nat.simps [simp del]

fun numbered :: "nat \<Rightarrow> string list \<Rightarrow> effect list" where
  "numbered i [] = []"
| "numbered i (c # cs) = Markdown (''['' @ str_nat i @ ''] '' @ c) # numbered (Suc i) cs"

definition label_verified :: string where
  "label_verified = [CHR 0xF0, CHR 0x9F, CHR 0x93, CHR 0x9A] @ '' Verified Sources''"

definition msg_missing_key :: string where
  "msg_missing_key =
     [CHR 0xE2, CHR 0x9A, CHR 0xA0, CHR 0xEF, CHR 0xB8, CHR 0x8F] @
     '' Please enter your API Key in the sidebar to proceed.''"

text \<open>
  \<open>result['choices'][0]['message']['content']\<close>: each missing key and the empty list
  raise.
\<close>

definition extract_content :: "result \<Rightarrow> string py" where
  "extract_content r =
     (case res_choices r of
        None \<Rightarrow> Inl (Exception ([CHR 0x27] @ ''choices'' @ [CHR 0x27]))
      | Some [] \<Rightarrow> Inl (Exception ''list index out of range'')
      | Some (c # _) \<Rightarrow>
          (case choice_message c of
             None \<Rightarrow> Inl (Exception ([CHR 0x27] @ ''message'' @ [CHR 0x27]))
           | Some m \<Rightarrow>
               (case message_content m of
                  None \<Rightarrow> Inl (Exception ([CHR 0x27] @ ''content'' @ [CHR 0x27]))
                | Some t \<Rightarrow> Inr t)))"

text \<open>\<open>result.get('citations', [])\<close>\<close>

definition get_citations :: "result \<Rightarrow> string list" where
  "get_citations r = (case res_citations r of None \<Rightarrow> [] | Some cs \<Rightarrow> cs)"

text \<open>
  The block \<open>if prompt := st.chat_input(...)\<close> of the remote script. \<open>api_key\<close> and \<open>model\<close>
  are the sidebar's settings. The append of the assistant turn follows the
  \<open>if "error" in result: ... else: ...\<close> statement and is reached from both branches, with
  \<open>full_response = ""\<close> and \<open>citations = []\<close> still at their initial values after the first.
\<close>

definition remote_turn ::
  "(pplx_request \<Rightarrow> response py) \<Rightarrow> string \<Rightarrow> pplx_model \<Rightarrow> string \<Rightarrow> session_state
     \<Rightarrow> outcome \<times> effect list \<times> session_state" where
  "remote_turn post key model prompt s =
     (if prompt = [] then (NoInput, [], s)
      else if key = [] then (Stopped, [StError msg_missing_key], s)
      else
        (let s1 = append_turn \<lparr>role = ''user'', content = prompt, citations = None\<rparr> s;
             ev1 = [ChatMessage ''user'', Markdown prompt, ChatMessage ''assistant'',
                    Spinner ''Analyzing web data...'']
         in case query_perplexity post (api_messages (messages s1)) key (model_name model) of
              (ev2, Inl e) \<Rightarrow> (Crashed e, ev1 @ ev2, s1)
            | (ev2, Inr r) \<Rightarrow>
                (case res_error r of
                   Some err \<Rightarrow>
                     (Completed, ev1 @ ev2 @ [StError (''API Error: '' @ err)],
                      append_turn \<lparr>role = ''assistant'', content = [], citations = Some []\<rparr> s1)
                 | None \<Rightarrow>
                     (case extract_content r of
                        Inl e \<Rightarrow> (Crashed e, ev1 @ ev2, s1)
                      | Inr full_response \<Rightarrow>
                          (Completed,
                           ev1 @ ev2 @ [PlaceholderMarkdown full_response]
                             @ (if get_citations r = [] then []
                                else Expander label_verified # numbered 1 (get_citations r)),
                           append_turn \<lparr>role = ''assistant'', content = full_response, citations = Some (get_citations r)\<rparr> s1)))))"

section \<open>Vocabulary of the properties\<close>

text \<open>The value of a key of a result that has it.\<close>

definition field :: "search_result \<Rightarrow> string \<Rightarrow> string" where
  "field r k = (case map_of r k of None \<Rightarrow> [] | Some v \<Rightarrow> v)"

text \<open>A search result in the sense of the data model: it has a title, a URL and a content.\<close>

definition has_fields :: "search_result \<Rightarrow> bool" where
  "has_fields r =
     (map_of r ''title'' \<noteq> None \<and> map_of r ''url'' \<noteq> None \<and> map_of r ''content'' \<noteq> None)"

definition block_of :: "search_result \<Rightarrow> string" where
  "block_of r =
     ''\<newline>---\<newline>Title: '' @ field r ''title'' @ ''\<newline>URL: '' @ field r ''url''
       @ ''\<newline>Content: '' @ field r ''content'' @ ''\<newline>''"

definition citation_of :: "search_result \<Rightarrow> string" where
  "citation_of r = ''['' @ field r ''title'' @ '']('' @ field r ''url'' @ '')''"

text \<open>The texts put into the answer placeholder during a run, in order.\<close>

fun renders :: "effect list \<Rightarrow> string list" where
  "renders [] = []"
| "renders (PlaceholderMarkdown t # es) = t # renders es"
| "renders (_ # es) = renders es"

text \<open>The requests posted to the chat-completions endpoint during a run, in order.\<close>

fun posted :: "effect list \<Rightarrow> pplx_request list" where
  "posted [] = []"
| "posted (HttpPost r # es) = r # posted es"
| "posted (_ # es) = posted es"

text \<open>The three components of what a run of an input block gives.\<close>

definition outcome_of :: "outcome \<times> effect list \<times> session_state \<Rightarrow> outcome" where
  "outcome_of run = fst run"

definition effects_of :: "outcome \<times> effect list \<times> session_state \<Rightarrow> effect list" where
  "effects_of run = fst (snd run)"

definition history_of :: "outcome \<times> effect list \<times> session_state \<Rightarrow> turn list" where
  "history_of run = messages (snd (snd run))"

section \<open>Concrete runs\<close>

text \<open>
  Environments and histories for evaluating the scripts: what the Tavily client, the local
  model and the HTTP post answer in a run, whatever the request.
\<close>

definition two_results :: "search_result list" where
  "two_results =
     [[(''title'', ''Test Co Q1''), (''url'', ''https://a.example/q1''),
       (''content'', ''Revenue rose 10%.'')],
      [(''url'', ''https://b.example/tc''), (''title'', ''Test Co guidance''),
       (''content'', ''Guidance raised.'')]]"

definition tavily_two_results :: "tavily_request \<Rightarrow> tavily_response py" where
  "tavily_two_results req = Inr \<lparr>results = Some two_results\<rparr>"

definition tavily_no_results :: "tavily_request \<Rightarrow> tavily_response py" where
  "tavily_no_results req = Inr \<lparr>results = Some []\<rparr>"

definition tavily_unreachable :: "tavily_request \<Rightarrow> tavily_response py" where
  "tavily_unreachable req = Inl (Exception ''connection refused'')"

definition ollama_three_chunks :: "ollama_request \<Rightarrow> string py list py" where
  "ollama_three_chunks req = Inr [Inr ''Rev'', Inr ''enue up'', Inr '' 10%.'']"

definition post_rate_limited :: "pplx_request \<Rightarrow> response py" where
  "post_rate_limited req = Inl (Exception ''rate limited'')"

definition post_interrupted :: "pplx_request \<Rightarrow> response py" where
  "post_interrupted req = Inl (BaseException ''KeyboardInterrupt'')"

definition post_answers :: "pplx_request \<Rightarrow> response py" where
  "post_answers req =
     Inr \<lparr>raise_for_status = Inr (),
          json = Inr \<lparr>res_error = None,
                      res_choices = Some [\<lparr>choice_message =
                                            Some \<lparr>message_content = Some ''Revenue up 10%.''\<rparr>\<rparr>],
                      res_citations = Some [''https://a.example/q1'']\<rparr>\<rparr>"

definition empty_session :: session_state where
  "empty_session = \<lparr>messages = []\<rparr>"

definition earlier_session :: session_state where
  "earlier_session =
     \<lparr>messages = [\<lparr>role = ''user'', content = ''Apple revenue?'', citations = None\<rparr>,
                   \<lparr>role = ''assistant'', content = ''$94.9B'', citations = Some [''https://apple.com/ir'']\<rparr>]\<rparr>"

definition earlier_session_other_citations :: session_state where
  "earlier_session_other_citations =
     \<lparr>messages = [\<lparr>role = ''user'', content = ''Apple revenue?'', citations = Some [''x'']\<rparr>,
                   \<lparr>role = ''assistant'', content = ''$94.9B'', citations = Some [''https://example.org/other'', ''y'']\<rparr>]\<rparr>"

section \<open>Properties\<close>

lemma try_except_Inl: "try_except (Inl (Exception e)) h = h e"
  by (simp add: try_except_def)

lemma try_except_Inr: "try_except (Inr v) h = Inr v"
  by (simp add: try_except_def)

lemma bind_py_Inl: "bind_py (Inl e) f = Inl e"
  by (simp add: bind_py_def)

lemma bind_py_Inr: "bind_py (Inr v) f = f v"
  by (simp add: bind_py_def)

lemma getitem_field: "map_of r k \<noteq> None \<Longrightarrow> getitem r k = Inr (field r k)"
  by (auto simp: getitem_def field_def)

lemma format_results_well_formed:
  "list_all has_fields rs \<Longrightarrow>
     format_results rs ctx cits = Inr (ctx @ concat (map block_of rs), cits @ map citation_of rs)"
proof (induction rs arbitrary: ctx cits)
  case Nil
  then show ?case by simp
next
  case (Cons r rs)
  from Cons.prems have r: "has_fields r" and rs: "list_all has_fields rs" by simp_all
  from r have g: "getitem r ''title'' = Inr (field r ''title'')"
    "getitem r ''url'' = Inr (field r ''url'')"
    "getitem r ''content'' = Inr (field r ''content'')"
    by (simp_all add: has_fields_def getitem_field)
  show ?case
    by (simp add: g bind_py_Inr Cons.IH [OF rs] block_of_def citation_of_def)
qed

lemma search_web_success:
  assumes "tavily_search (search_request q key) = Inr response"
    and "results response = Some R" and "list_all has_fields R"
  shows "snd (search_web tavily_search q key)
           = Inr (Some (concat (map block_of R)), map citation_of R)"
  using assms
  by (simp add: search_web_def bind_py_Inr try_except_Inr format_results_well_formed)

text \<open>
  C6. When the Tavily call returns the results \<open>R\<close>, each with a title, a URL and a
  content, \<open>search_web\<close> returns a citation list as long as \<open>R\<close> whose \<open>i\<close>-th entry is the
  reference \<open>[title](url)\<close> of the \<open>i\<close>-th result: one per result, in the order of \<open>R\<close>.
\<close>

theorem search_web_citations_parallel:
  assumes "tavily_search (search_request q key) = Inr response"
    and "results response = Some R"
    and "list_all has_fields R"
  shows "\<exists>ctx cits. snd (search_web tavily_search q key) = Inr (Some ctx, cits)
           \<and> length cits = length R
           \<and> (\<forall>i<length R. cits ! i
                  = ''['' @ field (R ! i) ''title'' @ '']('' @ field (R ! i) ''url'' @ '')'')
           \<and> cits = map citation_of R"
  using assms search_web_success [of tavily_search q key response R]
  by (simp add: citation_of_def)

theorem search_web_citations_parallel_witness:
  "tavily_two_results (search_request ''Test Co Q1 earnings'' ''tvly-key'')
     = Inr \<lparr>results = Some two_results\<rparr>
   \<and> list_all has_fields two_results
   \<and> (\<exists>ctx cits.
         snd (search_web tavily_two_results ''Test Co Q1 earnings'' ''tvly-key'')
           = Inr (Some ctx, cits)
       \<and> length cits = 2
       \<and> cits = [''[Test Co Q1](https://a.example/q1)'',
                  ''[Test Co guidance](https://b.example/tc)''])"
  using search_web_citations_parallel
    [of tavily_two_results "''Test Co Q1 earnings''" "''tvly-key''"
        "\<lparr>results = Some two_results\<rparr>" two_results]
  by (simp add: tavily_two_results_def two_results_def has_fields_def citation_of_def field_def)

lemma search_web_effects:
  "search_web tavily_search q key = ([TavilySearch (search_request q key)], snd (search_web tavily_search q key))"
  by (simp add: search_web_def)

lemma search_web_failure:
  "tavily_search (search_request q key) = Inl (Exception msg) \<Longrightarrow>
     snd (search_web tavily_search q key) = Inr (None, [''Search Error: '' @ msg])"
  by (simp add: search_web_def bind_py_Inl try_except_Inl)

lemma local_turn_search_failed:
  assumes "prompt \<noteq> []" and "tavily_key \<noteq> []"
    and "snd (search_web tavily_search prompt tavily_key) = Inr (context, cits)"
    and "context = None \<or> context = Some []"
  shows "local_turn tavily_search ollama_chat tavily_key selected_model prompt s =
           (Stopped,
            [ChatMessage ''user'', Markdown prompt, ChatMessage ''assistant'',
             Status label_working, StatusWrite ''Searching the web (Tavily)...'',
             TavilySearch (search_request prompt tavily_key),
             StatusUpdate label_failed ''error'',
             StError ''Could not retrieve search results.''],
            append_turn \<lparr>role = ''user'', content = prompt, citations = None\<rparr> s)"
proof -
  have sw: "search_web tavily_search prompt tavily_key
              = ([TavilySearch (search_request prompt tavily_key)], Inr (context, cits))"
    using assms(3) search_web_effects [of tavily_search prompt tavily_key] by simp
  show ?thesis
    using assms(1,2,4) by (auto simp add: local_turn_def sw Let_def)
qed

lemma local_turn_generate:
  assumes "prompt \<noteq> []" and "tavily_key \<noteq> []"
    and "snd (search_web tavily_search prompt tavily_key) = Inr (Some ctx, cits)"
    and "ctx \<noteq> []"
  shows "local_turn tavily_search ollama_chat tavily_key selected_model prompt s =
           (case local_generate ollama_chat selected_model prompt (Some ctx) cits
                   (append_turn \<lparr>role = ''user'', content = prompt, citations = None\<rparr> s) of
              (out, ev3, s2) \<Rightarrow>
                (out,
                 [ChatMessage ''user'', Markdown prompt, ChatMessage ''assistant'',
                  Status label_working, StatusWrite ''Searching the web (Tavily)...'',
                  TavilySearch (search_request prompt tavily_key),
                  StatusWrite ''Context retrieved. Analyzing with local Qwen model...''] @ ev3,
                 s2))"
proof -
  have sw: "search_web tavily_search prompt tavily_key
              = ([TavilySearch (search_request prompt tavily_key)], Inr (Some ctx, cits))"
    using assms(3) search_web_effects [of tavily_search prompt tavily_key] by simp
  show ?thesis
    using assms(1,2,4) by (simp add: local_turn_def sw Let_def split: prod.splits)
qed

lemma prefixes_hd: "prefixes cs = [] # tl (prefixes cs)"
  by (cases cs) simp_all

lemma drain_chunks:
  "drain (map Inr cs) full evs =
     (evs @ map (\<lambda>p. PlaceholderMarkdown ((full @ concat p) @ cursor)) (tl (prefixes cs)),
      Inr (full @ concat cs))"
proof (induction cs arbitrary: full evs)
  case Nil
  then show ?case by simp
next
  case (Cons c cs)
  have "map ((#) c) (prefixes cs) = [c] # map ((#) c) (tl (prefixes cs))"
    using prefixes_hd [of cs] by (metis list.simps(9))
  then show ?case
    by (simp add: Cons.IH comp_def)
qed

lemma renders_append: "renders (xs @ ys) = renders xs @ renders ys"
  by (induction xs rule: renders.induct) simp_all

lemma renders_placeholders: "renders (map (\<lambda>p. PlaceholderMarkdown (g p)) ps) = map g ps"
  by (induction ps) simp_all

lemma renders_markdown: "renders (map (\<lambda>c. Markdown (g c)) cits) = []"
  by (induction cits) simp_all

lemma renders_show_sources: "renders (show_sources label cits) = []"
  by (simp add: show_sources_def renders_markdown)

lemma local_generate_stream:
  assumes "ollama_chat (analyst_request prompt context selected_model) = Inr (map Inr chunks)"
  shows "local_generate ollama_chat selected_model prompt context cits s =
           (Completed,
            OllamaChat (analyst_request prompt context selected_model)
              # map (\<lambda>p. PlaceholderMarkdown (concat p @ cursor)) (tl (prefixes chunks))
              @ [PlaceholderMarkdown (concat chunks), StatusUpdate label_complete ''complete'']
              @ show_sources label_sources_used cits,
            append_turn \<lparr>role = ''assistant'', content = concat chunks, citations = Some cits\<rparr> s)"
  using assms by (simp add: local_generate_def run_local_analyst_def drain_chunks)

text \<open>
  C5. When the search gave a non-empty context and the stream of the local model yields
  the chunks \<open>C1..Cn\<close> and ends, the loop's \<open>full_response\<close> is their concatenation in
  order; that text is stored as the assistant turn's content and is the last text
  rendered, after one render per chunk of the text so far followed by the cursor.
\<close>

theorem streamed_answer_is_concatenation:
  assumes "prompt \<noteq> []" and "tavily_key \<noteq> []"
    and "snd (search_web tavily_search prompt tavily_key) = Inr (Some ctx, cits)"
    and "ctx \<noteq> []"
    and "ollama_chat (analyst_request prompt (Some ctx) selected_model) = Inr (map Inr chunks)"
  shows "snd (drain (map Inr chunks) [] []) = Inr (concat chunks)
       \<and> outcome_of (local_turn tavily_search ollama_chat tavily_key selected_model prompt s)
           = Completed
       \<and> history_of (local_turn tavily_search ollama_chat tavily_key selected_model prompt s)
           = messages s
               @ [\<lparr>role = ''user'', content = prompt, citations = None\<rparr>,
                  \<lparr>role = ''assistant'', content = concat chunks, citations = Some cits\<rparr>]
       \<and> renders (effects_of (local_turn tavily_search ollama_chat tavily_key selected_model prompt s))
           = map (\<lambda>p. concat p @ cursor) (tl (prefixes chunks)) @ [concat chunks]"
proof -
  have run: "local_turn tavily_search ollama_chat tavily_key selected_model prompt s =
      (Completed,
       [ChatMessage ''user'', Markdown prompt, ChatMessage ''assistant'',
        Status label_working, StatusWrite ''Searching the web (Tavily)...'',
        TavilySearch (search_request prompt tavily_key),
        StatusWrite ''Context retrieved. Analyzing with local Qwen model...'']
         @ OllamaChat (analyst_request prompt (Some ctx) selected_model)
         # map (\<lambda>p. PlaceholderMarkdown (concat p @ cursor)) (tl (prefixes chunks))
         @ [PlaceholderMarkdown (concat chunks), StatusUpdate label_complete ''complete'']
         @ show_sources label_sources_used cits,
       append_turn \<lparr>role = ''assistant'', content = concat chunks, citations = Some cits\<rparr>
         (append_turn \<lparr>role = ''user'', content = prompt, citations = None\<rparr> s))"
    using assms
      local_turn_generate [of prompt tavily_key tavily_search ctx cits ollama_chat selected_model s]
      local_generate_stream [of ollama_chat prompt "Some ctx" selected_model chunks cits
        "append_turn \<lparr>role = ''user'', content = prompt, citations = None\<rparr> s"]
    by simp
  have d: "snd (drain (map Inr chunks) [] []) = Inr (concat chunks)"
    by (simp add: drain_chunks)
  have r: "renders (effects_of (local_turn tavily_search ollama_chat tavily_key selected_model prompt s))
           = map (\<lambda>p. concat p @ cursor) (tl (prefixes chunks)) @ [concat chunks]"
    by (simp add: run effects_of_def renders_append renders_placeholders renders_show_sources)
  show ?thesis
    using d r by (simp add: run outcome_of_def history_of_def append_turn_def)
qed

theorem streamed_answer_is_concatenation_witness:
  "snd (search_web tavily_two_results ''Test Co Q1 earnings'' ''tvly-key'')
     = Inr (Some (concat (map block_of two_results)), map citation_of two_results)
   \<and> concat (map block_of two_results) \<noteq> []
   \<and> ollama_three_chunks
        (analyst_request ''Test Co Q1 earnings'' (Some (concat (map block_of two_results)))
           ''qwen2.5:7b'')
     = Inr (map Inr [''Rev'', ''enue up'', '' 10%.''])
   \<and> outcome_of (local_turn tavily_two_results ollama_three_chunks ''tvly-key'' ''qwen2.5:7b''
        ''Test Co Q1 earnings'' empty_session) = Completed
   \<and> history_of (local_turn tavily_two_results ollama_three_chunks ''tvly-key'' ''qwen2.5:7b''
        ''Test Co Q1 earnings'' empty_session)
     = [\<lparr>role = ''user'', content = ''Test Co Q1 earnings'', citations = None\<rparr>,
        \<lparr>role = ''assistant'', content = ''Revenue up 10%.'',
           citations = Some [''[Test Co Q1](https://a.example/q1)'',
                             ''[Test Co guidance](https://b.example/tc)'']\<rparr>]
   \<and> renders (effects_of (local_turn tavily_two_results ollama_three_chunks ''tvly-key''
        ''qwen2.5:7b'' ''Test Co Q1 earnings'' empty_session))
     = [''Rev'' @ cursor, ''Revenue up'' @ cursor, ''Revenue up 10%.'' @ cursor,
        ''Revenue up 10%.'']"
  using streamed_answer_is_concatenation
    [of "''Test Co Q1 earnings''" "''tvly-key''" tavily_two_results
        "concat (map block_of two_results)" "map citation_of two_results"
        ollama_three_chunks "''qwen2.5:7b''" "[''Rev'', ''enue up'', '' 10%.'']" empty_session]
  by (simp add: search_web_def try_except_def bind_py_def getitem_def block_of_def field_def
        citation_of_def tavily_two_results_def two_results_def ollama_three_chunks_def
        empty_session_def)

text \<open>
  C7. When the Tavily call raises an \<open>Exception\<close> with message \<open>msg\<close>, \<open>search_web\<close> returns no context and
  the message \<open>Search Error: msg\<close>; the script shows an error, stops before any call of the
  local model, renders no answer, and the history gains the user's turn only.
\<close>

theorem search_failure_halts_before_generation:
  assumes "prompt \<noteq> []" and "tavily_key \<noteq> []"
    and "tavily_search (search_request prompt tavily_key) = Inl (Exception msg)"
  shows "snd (search_web tavily_search prompt tavily_key) = Inr (None, [''Search Error: '' @ msg])
       \<and> outcome_of (local_turn tavily_search ollama_chat tavily_key selected_model prompt s)
           = Stopped
       \<and> StError ''Could not retrieve search results.''
           \<in> set (effects_of (local_turn tavily_search ollama_chat tavily_key selected_model prompt s))
       \<and> filter is_ollama_call
             (effects_of (local_turn tavily_search ollama_chat tavily_key selected_model prompt s))
           = []
       \<and> renders (effects_of (local_turn tavily_search ollama_chat tavily_key selected_model prompt s))
           = []
       \<and> history_of (local_turn tavily_search ollama_chat tavily_key selected_model prompt s)
           = messages s @ [\<lparr>role = ''user'', content = prompt, citations = None\<rparr>]"
proof -
  have sw: "snd (search_web tavily_search prompt tavily_key) = Inr (None, [''Search Error: '' @ msg])"
    using assms(3) by (rule search_web_failure)
  show ?thesis
    using sw local_turn_search_failed
      [of prompt tavily_key tavily_search None "[''Search Error: '' @ msg]" ollama_chat
          selected_model s] assms(1,2)
    by (simp add: outcome_of_def effects_of_def history_of_def append_turn_def)
qed

theorem search_failure_halts_before_generation_witness:
  "tavily_unreachable (search_request ''Test Co Q1 earnings'' ''tvly-key'')
     = Inl (Exception ''connection refused'')
   \<and> snd (search_web tavily_unreachable ''Test Co Q1 earnings'' ''tvly-key'')
     = Inr (None, [''Search Error: connection refused''])
   \<and> outcome_of (local_turn tavily_unreachable ollama_three_chunks ''tvly-key'' ''qwen2.5:7b''
        ''Test Co Q1 earnings'' empty_session) = Stopped
   \<and> filter is_ollama_call
        (effects_of (local_turn tavily_unreachable ollama_three_chunks ''tvly-key'' ''qwen2.5:7b''
           ''Test Co Q1 earnings'' empty_session)) = []
   \<and> history_of (local_turn tavily_unreachable ollama_three_chunks ''tvly-key'' ''qwen2.5:7b''
        ''Test Co Q1 earnings'' empty_session)
     = [\<lparr>role = ''user'', content = ''Test Co Q1 earnings'', citations = None\<rparr>]"
  using search_failure_halts_before_generation
    [of "''Test Co Q1 earnings''" "''tvly-key''" tavily_unreachable "''connection refused''"
        ollama_three_chunks "''qwen2.5:7b''" empty_session]
  by (simp add: tavily_unreachable_def empty_session_def)

text \<open>
  C1. A search that succeeds with zero results gives the empty context string and the empty
  citation list. The script's test \<open>if not context\<close> is true of the empty string as it is of
  \<open>None\<close>: the run below shows the error and stops without calling the local model, so the
  claim that the generator is still invoked fails on the code.
\<close>

theorem empty_results_counterexample:
  "outcome_of (local_turn tavily_no_results ollama_three_chunks ''tvly-key'' ''qwen2.5:7b''
        ''Test Co Q1 earnings'' empty_session) = Stopped
   \<and> list_ex is_error_shown
        (effects_of (local_turn tavily_no_results ollama_three_chunks ''tvly-key'' ''qwen2.5:7b''
           ''Test Co Q1 earnings'' empty_session))
   \<and> \<not> list_ex is_ollama_call
        (effects_of (local_turn tavily_no_results ollama_three_chunks ''tvly-key'' ''qwen2.5:7b''
           ''Test Co Q1 earnings'' empty_session))"
  by (simp add: local_turn_def search_web_def try_except_def bind_py_def outcome_of_def
        effects_of_def tavily_no_results_def)

text \<open>
  C1, as the code has it. When the Tavily call returns a response with no results (an empty
  list, or no \<open>results\<close> key), \<open>search_web\<close> returns the empty string (not \<open>None\<close>) and
  the empty citation list, and the script treats this like a failed search: it shows the
  error, stops before the local model is called, and the history gains the user's turn only.
\<close>

theorem empty_results_halt_like_a_failure:
  assumes "prompt \<noteq> []" and "tavily_key \<noteq> []"
    and "tavily_search (search_request prompt tavily_key) = Inr response"
    and "results response = None \<or> results response = Some []"
  shows "snd (search_web tavily_search prompt tavily_key) = Inr (Some [], [])
       \<and> outcome_of (local_turn tavily_search ollama_chat tavily_key selected_model prompt s)
           = Stopped
       \<and> StError ''Could not retrieve search results.''
           \<in> set (effects_of (local_turn tavily_search ollama_chat tavily_key selected_model prompt s))
       \<and> filter is_ollama_call
             (effects_of (local_turn tavily_search ollama_chat tavily_key selected_model prompt s))
           = []
       \<and> history_of (local_turn tavily_search ollama_chat tavily_key selected_model prompt s)
           = messages s @ [\<lparr>role = ''user'', content = prompt, citations = None\<rparr>]"
proof -
  have sw: "snd (search_web tavily_search prompt tavily_key) = Inr (Some [], [])"
    using assms(3,4) by (auto simp: search_web_def bind_py_Inr try_except_Inr)
  show ?thesis
    using sw local_turn_search_failed
      [of prompt tavily_key tavily_search "Some []" "[]" ollama_chat selected_model s] assms(1,2)
    by (simp add: outcome_of_def effects_of_def history_of_def append_turn_def)
qed

theorem empty_results_halt_like_a_failure_witness:
  "tavily_no_results (search_request ''Test Co Q1 earnings'' ''tvly-key'')
     = Inr \<lparr>results = Some []\<rparr>
   \<and> snd (search_web tavily_no_results ''Test Co Q1 earnings'' ''tvly-key'') = Inr (Some [], [])
   \<and> outcome_of (local_turn tavily_no_results ollama_three_chunks ''tvly-key'' ''qwen2.5:7b''
        ''Test Co Q1 earnings'' empty_session) = Stopped
   \<and> filter is_ollama_call
        (effects_of (local_turn tavily_no_results ollama_three_chunks ''tvly-key'' ''qwen2.5:7b''
           ''Test Co Q1 earnings'' empty_session)) = []
   \<and> history_of (local_turn tavily_no_results ollama_three_chunks ''tvly-key'' ''qwen2.5:7b''
        ''Test Co Q1 earnings'' empty_session)
     = [\<lparr>role = ''user'', content = ''Test Co Q1 earnings'', citations = None\<rparr>]"
  using empty_results_halt_like_a_failure
    [of "''Test Co Q1 earnings''" "''tvly-key''" tavily_no_results
        "\<lparr>results = Some []\<rparr>" ollama_three_chunks "''qwen2.5:7b''" empty_session]
  by (simp add: tavily_no_results_def empty_session_def)

text \<open>
  C3. With an empty credential neither script has appended the user's message when it
  stops: after a submission to an empty history the history is not the user's turn.
\<close>

theorem missing_credential_counterexample:
  "history_of (local_turn tavily_two_results ollama_three_chunks [] ''qwen2.5:7b''
        ''Test Co Q1 earnings'' empty_session)
     \<noteq> [\<lparr>role = ''user'', content = ''Test Co Q1 earnings'', citations = None\<rparr>]
   \<and> history_of (remote_turn post_rate_limited [] Sonar ''Test Co Q1 earnings'' empty_session)
     \<noteq> [\<lparr>role = ''user'', content = ''Test Co Q1 earnings'', citations = None\<rparr>]"
  by (simp add: local_turn_def remote_turn_def history_of_def empty_session_def)

text \<open>
  C3, as the code has it. For every submitted prompt with an empty credential, both scripts
  show an error and stop at once: no client library is called and the history is unchanged,
  the check coming before the append of the user's message in both.
\<close>

theorem missing_credential_aborts_before_append:
  assumes "prompt \<noteq> []"
  shows "local_turn tavily_search ollama_chat [] selected_model prompt s
           = (Stopped, [StError ''Please enter your Tavily API Key in the sidebar.''], s)
       \<and> remote_turn post [] model prompt s = (Stopped, [StError msg_missing_key], s)
       \<and> filter is_network_call
            (effects_of (local_turn tavily_search ollama_chat [] selected_model prompt s)) = []
       \<and> filter is_network_call (effects_of (remote_turn post [] model prompt s)) = []
       \<and> history_of (local_turn tavily_search ollama_chat [] selected_model prompt s) = messages s
       \<and> history_of (remote_turn post [] model prompt s) = messages s"
  using assms by (simp add: local_turn_def remote_turn_def effects_of_def history_of_def)

theorem missing_credential_aborts_before_append_witness:
  "''Test Co Q1 earnings'' \<noteq> []
   \<and> outcome_of (local_turn tavily_two_results ollama_three_chunks [] ''qwen2.5:7b''
        ''Test Co Q1 earnings'' earlier_session) = Stopped
   \<and> outcome_of (remote_turn post_rate_limited [] Sonar ''Test Co Q1 earnings'' earlier_session)
     = Stopped
   \<and> history_of (local_turn tavily_two_results ollama_three_chunks [] ''qwen2.5:7b''
        ''Test Co Q1 earnings'' earlier_session)
     = messages earlier_session
   \<and> history_of (remote_turn post_rate_limited [] Sonar ''Test Co Q1 earnings'' earlier_session)
     = messages earlier_session"
  using missing_credential_aborts_before_append
    [of "''Test Co Q1 earnings''" tavily_two_results ollama_three_chunks "''qwen2.5:7b''"
        earlier_session post_rate_limited Sonar]
  by (simp add: history_of_def outcome_of_def)

lemma query_perplexity_effects:
  "query_perplexity post msgs key model
     = ([HttpPost (perplexity_request msgs key model)], snd (query_perplexity post msgs key model))"
  by (simp add: query_perplexity_def)

lemma query_perplexity_cases:
  "(\<exists>resp r. post (perplexity_request msgs key model) = Inr resp
        \<and> raise_for_status resp = Inr () \<and> json resp = Inr r
        \<and> snd (query_perplexity post msgs key model) = Inr r)
   \<or> (\<exists>e. snd (query_perplexity post msgs key model) = Inr (error_result e)
        \<and> (post (perplexity_request msgs key model) = Inl (Exception e)
           \<or> (\<exists>resp. post (perplexity_request msgs key model) = Inr resp
                 \<and> (raise_for_status resp = Inl (Exception e)
                    \<or> raise_for_status resp = Inr () \<and> json resp = Inl (Exception e)))))
   \<or> (\<exists>b. snd (query_perplexity post msgs key model) = Inl (BaseException b)
        \<and> (post (perplexity_request msgs key model) = Inl (BaseException b)
           \<or> (\<exists>resp. post (perplexity_request msgs key model) = Inr resp
                 \<and> (raise_for_status resp = Inl (BaseException b)
                    \<or> raise_for_status resp = Inr () \<and> json resp = Inl (BaseException b)))))"
proof (cases "post (perplexity_request msgs key model)")
  case (Inl x)
  then show ?thesis
    by (cases x) (simp_all add: query_perplexity_def bind_py_def try_except_def)
next
  case (Inr resp)
  note post = this
  show ?thesis
  proof (cases "raise_for_status resp")
    case (Inl x)
    with post show ?thesis
      by (cases x) (simp_all add: query_perplexity_def bind_py_def try_except_def)
  next
    case (Inr u)
    note status = this
    show ?thesis
    proof (cases "json resp")
      case (Inl x)
      with post status show ?thesis
        by (cases x) (simp_all add: query_perplexity_def bind_py_def try_except_def)
    next
      case (Inr r)
      with post status show ?thesis
        by (simp add: query_perplexity_def bind_py_def try_except_def)
    qed
  qed
qed

lemma query_perplexity_no_exception:
  "snd (query_perplexity post msgs key model) \<noteq> Inl (Exception e)"
  using query_perplexity_cases [of post msgs key model] by auto

text \<open>
  C8. \<open>query_perplexity\<close> does propagate a raise to its caller: its handler is
  \<open>except Exception\<close>, and when the post is interrupted (\<open>KeyboardInterrupt\<close> is not an
  \<open>Exception\<close>) the call raises instead of returning a dict.
\<close>

theorem query_perplexity_interrupt_counterexample:
  "snd (query_perplexity post_interrupted
          [\<lparr>msg_role = ''user'', msg_content = ''Test Co Q1 earnings''\<rparr>] ''pplx-key'' ''sonar'')
     = Inl (BaseException ''KeyboardInterrupt'')"
  by (simp add: query_perplexity_def bind_py_def try_except_def post_interrupted_def)

text \<open>
  C8, as the code has it. \<open>query_perplexity\<close> never lets an instance of \<open>Exception\<close> reach
  its caller, and for every input exactly one of three things happens. The post returned,
  \<open>raise_for_status\<close> (the status check) passed and the body parsed: it returns the parsed
  body. One of the three raised an \<open>Exception\<close> with message \<open>e\<close>: it returns the dict
  \<open>{"error": e}\<close>. One of the three raised something that is not an \<open>Exception\<close>: that
  raise propagates.
\<close>

theorem query_perplexity_catches_every_Exception:
  "(\<forall>e. snd (query_perplexity post msgs key model) \<noteq> Inl (Exception e))
   \<and> ((\<exists>resp r. post (perplexity_request msgs key model) = Inr resp
          \<and> raise_for_status resp = Inr () \<and> json resp = Inr r
          \<and> snd (query_perplexity post msgs key model) = Inr r)
     \<or> (\<exists>e. snd (query_perplexity post msgs key model)
                = Inr \<lparr>res_error = Some e, res_choices = None, res_citations = None\<rparr>
          \<and> (post (perplexity_request msgs key model) = Inl (Exception e)
             \<or> (\<exists>resp. post (perplexity_request msgs key model) = Inr resp
                   \<and> (raise_for_status resp = Inl (Exception e)
                      \<or> raise_for_status resp = Inr () \<and> json resp = Inl (Exception e)))))
     \<or> (\<exists>b. snd (query_perplexity post msgs key model) = Inl (BaseException b)
          \<and> (post (perplexity_request msgs key model) = Inl (BaseException b)
             \<or> (\<exists>resp. post (perplexity_request msgs key model) = Inr resp
                   \<and> (raise_for_status resp = Inl (BaseException b)
                      \<or> raise_for_status resp = Inr ()
                          \<and> json resp = Inl (BaseException b))))))"
  using query_perplexity_cases [of post msgs key model]
    query_perplexity_no_exception [of post msgs key model]
  by (simp add: error_result_def)

theorem query_perplexity_catches_every_Exception_witness:
  "snd (query_perplexity post_rate_limited
          [\<lparr>msg_role = ''user'', msg_content = ''Test Co Q1 earnings''\<rparr>] ''pplx-key'' ''sonar'')
     = Inr \<lparr>res_error = Some ''rate limited'', res_choices = None, res_citations = None\<rparr>
   \<and> snd (query_perplexity post_answers
          [\<lparr>msg_role = ''user'', msg_content = ''Test Co Q1 earnings''\<rparr>] ''pplx-key'' ''sonar'')
     = Inr \<lparr>res_error = None,
            res_choices = Some [\<lparr>choice_message =
                                  Some \<lparr>message_content = Some ''Revenue up 10%.''\<rparr>\<rparr>],
            res_citations = Some [''https://a.example/q1'']\<rparr>"
  using query_perplexity_catches_every_Exception
    [of post_rate_limited "[\<lparr>msg_role = ''user'', msg_content = ''Test Co Q1 earnings''\<rparr>]"
        "''pplx-key''" "''sonar''"]
    query_perplexity_catches_every_Exception
    [of post_answers "[\<lparr>msg_role = ''user'', msg_content = ''Test Co Q1 earnings''\<rparr>]"
        "''pplx-key''" "''sonar''"]
  by (simp add: post_rate_limited_def post_answers_def)

lemma posted_append: "posted (xs @ ys) = posted xs @ posted ys"
  by (induction xs rule: posted.induct) simp_all

lemma posted_numbered: "posted (numbered i cs) = []"
  by (induction cs arbitrary: i) simp_all

lemma remote_turn_run:
  assumes "prompt \<noteq> []" and "key \<noteq> []"
    and "snd (query_perplexity post (api_messages (messages s @ [\<lparr>role = ''user'', content = prompt, citations = None\<rparr>])) key
               (model_name model)) = res"
  shows "remote_turn post key model prompt s =
    (case res of
       Inl x \<Rightarrow>
         (Crashed x,
          [ChatMessage ''user'', Markdown prompt, ChatMessage ''assistant'',
           Spinner ''Analyzing web data...'',
           HttpPost (perplexity_request (api_messages (messages s @ [\<lparr>role = ''user'', content = prompt, citations = None\<rparr>])) key
                       (model_name model))],
          append_turn \<lparr>role = ''user'', content = prompt, citations = None\<rparr> s)
     | Inr r \<Rightarrow>
    (case res_error r of
       Some err \<Rightarrow>
         (Completed,
          [ChatMessage ''user'', Markdown prompt, ChatMessage ''assistant'',
           Spinner ''Analyzing web data...'',
           HttpPost (perplexity_request (api_messages (messages s @ [\<lparr>role = ''user'', content = prompt, citations = None\<rparr>])) key
                       (model_name model)),
           StError (''API Error: '' @ err)],
          append_turn \<lparr>role = ''assistant'', content = [], citations = Some []\<rparr>
            (append_turn \<lparr>role = ''user'', content = prompt, citations = None\<rparr> s))
     | None \<Rightarrow>
         (case extract_content r of
            Inl e \<Rightarrow>
              (Crashed e,
               [ChatMessage ''user'', Markdown prompt, ChatMessage ''assistant'',
                Spinner ''Analyzing web data...'',
                HttpPost (perplexity_request (api_messages (messages s @ [\<lparr>role = ''user'', content = prompt, citations = None\<rparr>])) key
                            (model_name model))],
               append_turn \<lparr>role = ''user'', content = prompt, citations = None\<rparr> s)
          | Inr full_response \<Rightarrow>
              (Completed,
               [ChatMessage ''user'', Markdown prompt, ChatMessage ''assistant'',
                Spinner ''Analyzing web data...'',
                HttpPost (perplexity_request (api_messages (messages s @ [\<lparr>role = ''user'', content = prompt, citations = None\<rparr>])) key
                            (model_name model)),
                PlaceholderMarkdown full_response]
                 @ (if get_citations r = [] then []
                    else Expander label_verified # numbered 1 (get_citations r)),
               append_turn
                 \<lparr>role = ''assistant'', content = full_response,
                    citations = Some (get_citations r)\<rparr>
                 (append_turn \<lparr>role = ''user'', content = prompt, citations = None\<rparr> s)))))"
proof -
  have qp: "query_perplexity post (api_messages (messages s @ [\<lparr>role = ''user'', content = prompt, citations = None\<rparr>])) key (model_name model)
            = ([HttpPost (perplexity_request (api_messages (messages s @ [\<lparr>role = ''user'', content = prompt, citations = None\<rparr>])) key
                            (model_name model))], res)"
    using assms(3)
      query_perplexity_effects [of post "api_messages (messages s @ [\<lparr>role = ''user'', content = prompt, citations = None\<rparr>])" key
        "model_name model"]
    by simp
  show ?thesis
    using assms(1,2)
    by (simp add: remote_turn_def Let_def append_turn_def qp split: option.splits sum.splits)
qed

lemma remote_turn_posted:
  assumes "prompt \<noteq> []" and "key \<noteq> []"
  shows "posted (effects_of (remote_turn post key model prompt s))
           = [perplexity_request (api_messages (messages s @ [\<lparr>role = ''user'', content = prompt, citations = None\<rparr>])) key (model_name model)]"
  by (simp add: remote_turn_run [OF assms refl] effects_of_def posted_append posted_numbered
        split: option.splits sum.splits)

text \<open>
  C9. Every request a run of the remote script posts has as its messages the system
  instruction first, then the role and content of every stored turn in order, ending with
  the prompt just submitted; its model is the name of the selected option, one of
  \<open>sonar\<close> and \<open>sonar-reasoning\<close>; and \<open>return_citations\<close> is true. A run posts exactly
  one request when a prompt was submitted and the credential is not empty, none otherwise.
\<close>

theorem remote_request_carries_whole_history:
  "(\<forall>req \<in> set (posted (effects_of (remote_turn post key model prompt s))).
       payload_messages (json_body req)
         = \<lparr>msg_role = ''system'', msg_content = system_instruction\<rparr>
             # map (\<lambda>m. \<lparr>msg_role = role m, msg_content = content m\<rparr>)
                 (messages s @ [\<lparr>role = ''user'', content = prompt, citations = None\<rparr>])
     \<and> payload_model (json_body req) = model_name model
     \<and> model_name model \<in> {''sonar'', ''sonar-reasoning''}
     \<and> return_citations (json_body req) = True)
   \<and> length (posted (effects_of (remote_turn post key model prompt s)))
       = (if prompt = [] \<or> key = [] then 0 else 1)"
proof (cases "prompt = [] \<or> key = []")
  case True
  then show ?thesis by (auto simp: remote_turn_def effects_of_def)
next
  case False
  then have "posted (effects_of (remote_turn post key model prompt s))
           = [perplexity_request (api_messages (messages s @ [\<lparr>role = ''user'', content = prompt, citations = None\<rparr>])) key
                (model_name model)]"
    by (simp add: remote_turn_posted)
  with False show ?thesis
    by (cases model) (simp_all add: perplexity_request_def api_messages_def)
qed

theorem remote_request_carries_whole_history_witness:
  "(\<exists>req. posted (effects_of (remote_turn post_rate_limited ''pplx-key'' SonarReasoning
                  ''And margins?'' earlier_session)) = [req]
      \<and> payload_messages (json_body req)
          = [\<lparr>msg_role = ''system'', msg_content = system_instruction\<rparr>,
             \<lparr>msg_role = ''user'', msg_content = ''Apple revenue?''\<rparr>,
             \<lparr>msg_role = ''assistant'', msg_content = ''$94.9B''\<rparr>,
             \<lparr>msg_role = ''user'', msg_content = ''And margins?''\<rparr>]
      \<and> payload_model (json_body req) = ''sonar-reasoning''
      \<and> return_citations (json_body req) = True)"
proof -
  have one: "posted (effects_of (remote_turn post_rate_limited ''pplx-key'' SonarReasoning
                  ''And margins?'' earlier_session))
      = [perplexity_request (api_messages (messages earlier_session @ [\<lparr>role = ''user'', content = ''And margins?'', citations = None\<rparr>]))
           ''pplx-key'' (model_name SonarReasoning)]"
    by (simp add: remote_turn_posted)
  have sent: "payload_messages (json_body
          (perplexity_request (api_messages (messages earlier_session @ [\<lparr>role = ''user'', content = ''And margins?'', citations = None\<rparr>]))
             ''pplx-key'' (model_name SonarReasoning)))
        = \<lparr>msg_role = ''system'', msg_content = system_instruction\<rparr>
            # map (\<lambda>m. \<lparr>msg_role = role m, msg_content = content m\<rparr>)
                (messages earlier_session
                   @ [\<lparr>role = ''user'', content = ''And margins?'', citations = None\<rparr>])
      \<and> payload_model (json_body
          (perplexity_request (api_messages (messages earlier_session @ [\<lparr>role = ''user'', content = ''And margins?'', citations = None\<rparr>]))
             ''pplx-key'' (model_name SonarReasoning))) = model_name SonarReasoning
      \<and> return_citations (json_body
          (perplexity_request (api_messages (messages earlier_session @ [\<lparr>role = ''user'', content = ''And margins?'', citations = None\<rparr>]))
             ''pplx-key'' (model_name SonarReasoning))) = True"
    using remote_request_carries_whole_history
      [of post_rate_limited "''pplx-key''" SonarReasoning "''And margins?''" earlier_session]
    unfolding one by simp
  show ?thesis
    unfolding one using sent
    by (simp add: earlier_session_def)
qed

lemma role_content_determine_messages:
  "map role xs = map role ys \<Longrightarrow> map content xs = map content ys \<Longrightarrow>
     map (\<lambda>m. \<lparr>msg_role = role m, msg_content = content m\<rparr>) xs
       = map (\<lambda>m. \<lparr>msg_role = role m, msg_content = content m\<rparr>) ys"
proof (induction xs arbitrary: ys)
  case Nil
  then show ?case by simp
next
  case (Cons x xs)
  then obtain y ys' where ys: "ys = y # ys'" by (cases ys) auto
  with Cons.prems have "role x = role y" "content x = content y"
    "map role xs = map role ys'" "map content xs = map content ys'"
    by simp_all
  with Cons.IH [of ys'] ys show ?case by simp
qed

text \<open>
  C10. Two sessions whose stored turns agree on roles and contents, whatever citation lists
  the turns carry, make the remote script post the same requests.
\<close>

theorem request_independent_of_stored_citations:
  assumes "map role (messages s1) = map role (messages s2)"
    and "map content (messages s1) = map content (messages s2)"
  shows "posted (effects_of (remote_turn post key model prompt s1))
           = posted (effects_of (remote_turn post key model prompt s2))"
proof (cases "prompt = [] \<or> key = []")
  case True
  then show ?thesis by (auto simp: remote_turn_def effects_of_def)
next
  case False
  have "api_messages (messages s1 @ [\<lparr>role = ''user'', content = prompt, citations = None\<rparr>])
               = api_messages (messages s2 @ [\<lparr>role = ''user'', content = prompt, citations = None\<rparr>])"
    using role_content_determine_messages [OF assms] by (simp add: api_messages_def)
  with False show ?thesis
    by (simp add: remote_turn_posted)
qed

theorem request_independent_of_stored_citations_witness:
  "map role (messages earlier_session) = map role (messages earlier_session_other_citations)
   \<and> map content (messages earlier_session)
     = map content (messages earlier_session_other_citations)
   \<and> map citations (messages earlier_session)
     \<noteq> map citations (messages earlier_session_other_citations)
   \<and> posted (effects_of (remote_turn post_rate_limited ''pplx-key'' Sonar ''And margins?''
        earlier_session))
     = posted (effects_of (remote_turn post_rate_limited ''pplx-key'' Sonar ''And margins?''
        earlier_session_other_citations))"
  using request_independent_of_stored_citations
    [of earlier_session earlier_session_other_citations post_rate_limited "''pplx-key''" Sonar
        "''And margins?''"]
  by (simp add: earlier_session_def earlier_session_other_citations_def)

text \<open>
  C2. The run in which the post fails with "rate limited": \<open>query_perplexity\<close> returns
  \<open>{"error": "rate limited"}\<close>, the script shows the error, and then the append after the
  \<open>if\<close>/\<open>else\<close> stores an assistant turn with empty content and empty citations behind
  the user's turn.
\<close>

theorem api_error_appends_empty_assistant_turn:
  "snd (query_perplexity post_rate_limited
          (api_messages [\<lparr>role = ''user'', content = ''Test Co Q1 earnings'', citations = None\<rparr>])
          ''pplx-key'' ''sonar'')
     = Inr \<lparr>res_error = Some ''rate limited'', res_choices = None, res_citations = None\<rparr>
   \<and> history_of (remote_turn post_rate_limited ''pplx-key'' Sonar ''Test Co Q1 earnings''
        empty_session)
     = [\<lparr>role = ''user'', content = ''Test Co Q1 earnings'', citations = None\<rparr>,
        \<lparr>role = ''assistant'', content = [], citations = Some []\<rparr>]
   \<and> effects_of (remote_turn post_rate_limited ''pplx-key'' Sonar ''Test Co Q1 earnings''
        empty_session)
     = [ChatMessage ''user'', Markdown ''Test Co Q1 earnings'', ChatMessage ''assistant'',
        Spinner ''Analyzing web data...'',
        HttpPost (perplexity_request
                    (api_messages
                       [\<lparr>role = ''user'', content = ''Test Co Q1 earnings'', citations = None\<rparr>])
                    ''pplx-key'' ''sonar''),
        StError ''API Error: rate limited'']"
  by (simp add: remote_turn_def query_perplexity_def bind_py_def try_except_def error_result_def
        history_of_def effects_of_def append_turn_def post_rate_limited_def empty_session_def)






end
